theory Spec2Isabelle
  imports Complex_Main
begin

section \<open>The tap handle: dimensions\<close>

text \<open>
  The program \<^verbatim>\<open>cad/tap_handle.py\<close> holds the dimensions of a tap handle in the
  dataclass \<^verbatim>\<open>TapHandleSpec\<close>, builds the solid with calls of a geometry kernel in a
  fixed order (\<^verbatim>\<open>make_tap_handle\<close>) and exports it. Python's \<^verbatim>\<open>float\<close> is read as
  \<^typ>\<open>real\<close> throughout: rounding is not modelled.
\<close>

record TapHandleSpec =
  shaft_od :: real
  shaft_length :: real
  shaft_hex_length :: real
  tap_diameter :: real
  tap_square_length :: real
  tap_round_length :: real
  handle_base_diameter :: real
  handle_t_width :: real
  handle_t_length :: real
  handle_t_length_2 :: real
  handle_t_height :: real

text \<open>The field defaults of the dataclass, which is what \<^verbatim>\<open>TapHandleSpec()\<close> builds.\<close>

definition default_spec :: TapHandleSpec where
  "default_spec =
     \<lparr> shaft_od = 12.5, shaft_length = 140, shaft_hex_length = 10.0,
       tap_diameter = 3.0, tap_square_length = 10.0, tap_round_length = 2.0,
       handle_base_diameter = 30.0, handle_t_width = 15.0, handle_t_length = 120.0,
       handle_t_length_2 = 60.0, handle_t_height = 10.0 \<rparr>"

text \<open>
  The property \<^verbatim>\<open>tap_square_side_length\<close>: \<^verbatim>\<open>self.tap_diameter / (2**0.5)\<close>, computed
  from the fields at every read.
\<close>

definition tap_square_side_length :: "TapHandleSpec \<Rightarrow> real" where
  "tap_square_side_length self = tap_diameter self / (2 powr 0.5)"

text \<open>
  The dataclass is not frozen, so \<^verbatim>\<open>s.tap_diameter = d\<close> is an ordinary attribute
  assignment: it succeeds and changes this one field of the object.
\<close>

definition set_tap_diameter :: "real \<Rightarrow> TapHandleSpec \<Rightarrow> TapHandleSpec" where
  "set_tap_diameter d s = s\<lparr>tap_diameter := d\<rparr>"

section \<open>The geometry kernel, as the builder uses it\<close>

text \<open>
  The kernel (\<^verbatim>\<open>build123d\<close>, with the anchors of \<^verbatim>\<open>build123d_ease\<close>) is not part of the
  program. A solid is modelled by the kernel calls that build it, one constructor for each
  call the builder makes, with the arguments in the order the builder gives them:
  \<^verbatim>\<open>bd.Part(None)\<close>, \<^verbatim>\<open>bd.Cylinder(radius, height, align)\<close>,
  \<^verbatim>\<open>bd.Box(length, width, height, align)\<close>, \<^verbatim>\<open>bd.RegularPolygon(radius, side_count)\<close>,
  \<^verbatim>\<open>bd.extrude(sketch, amount)\<close>, \<^verbatim>\<open>bd.Pos(Z=z) * shape\<close>, \<^verbatim>\<open>a + b\<close>, \<^verbatim>\<open>a - b\<close> and a
  fillet of some edges of a shape with a radius (\<^verbatim>\<open>bd.fillet(edges, radius)\<close> on the
  shape the edges come from, and \<^verbatim>\<open>p.fillet(edge_list, radius)\<close>). Exceptions raised inside
  the kernel are outside the model.
\<close>

datatype align = ANCHOR_TOP | ANCHOR_BOTTOM

datatype 'e shape =
    PartNone
  | Cylinder real real align
  | Box real real real align
  | RegularPolygon real nat
  | Extrude "'e shape" real
  | Pos real "'e shape"
  | Add "'e shape" "'e shape"
  | Sub "'e shape" "'e shape"
  | Fillet "'e shape" "'e list" real

record Vector =
  X :: real
  Y :: real
  Z :: real

text \<open>
  What the builder asks of the kernel about a solid: the list of its edges
  (\<^verbatim>\<open>p.edges()\<close>) and the centre of an edge (\<^verbatim>\<open>edge.center()\<close>). Both are parameters, and
  functions: the same solid has the same edges at every call.
\<close>

record 'e kernel =
  edges :: "'e shape \<Rightarrow> 'e list"
  center :: "'e \<Rightarrow> Vector"

datatype error = AssertionError string

section \<open>The builder\<close>

text \<open>The handle before its fillet: a cylinder and two boxes, each anchored at its top.\<close>

definition handle_body :: "TapHandleSpec \<Rightarrow> 'e shape" where
  "handle_body spec =
     Add (Add (Add PartNone
       (Cylinder (handle_base_diameter spec / 2) (handle_t_height spec) ANCHOR_TOP))
       (Box (handle_t_length spec) (handle_t_width spec) (handle_t_height spec) ANCHOR_TOP))
       (Box (handle_t_width spec) (handle_t_length_2 spec) (handle_t_height spec) ANCHOR_TOP)"

text \<open>\<^verbatim>\<open>handle_part = bd.Pos(Z=0.1) * bd.fillet(handle_part.edges(), 4.5)\<close>\<close>

definition handle_part :: "'e kernel \<Rightarrow> TapHandleSpec \<Rightarrow> 'e shape" where
  "handle_part K spec =
     Pos 0.1 (Fillet (handle_body spec) (edges K (handle_body spec)) 4.5)"

definition shaft_part :: "TapHandleSpec \<Rightarrow> 'e shape" where
  "shaft_part spec =
     Add (Add PartNone
       (Cylinder (shaft_od spec / 2) (shaft_length spec - shaft_hex_length spec)
          ANCHOR_BOTTOM))
       (Pos (shaft_length spec - shaft_hex_length spec - 0.01)
          (Extrude (RegularPolygon (shaft_od spec / 2) 6) (shaft_hex_length spec)))"

text \<open>\<^verbatim>\<open>p = bd.Part(None) + handle_part + shaft_part\<close>\<close>

definition combined :: "'e kernel \<Rightarrow> TapHandleSpec \<Rightarrow> 'e shape" where
  "combined K spec = Add (Add PartNone (handle_part K spec)) (shaft_part spec)"

text \<open>The list comprehension over \<^verbatim>\<open>p.edges()\<close>, in the order of the kernel's list.\<close>

definition intersection_edges :: "'e kernel \<Rightarrow> TapHandleSpec \<Rightarrow> 'e shape \<Rightarrow> 'e list" where
  "intersection_edges K spec p =
     filter (\<lambda>edge.
        \<bar>Z (center K edge)\<bar> < 0.2
        \<and> ((shaft_od spec / 2) ^ 2 - 1 < (X (center K edge)) ^ 2 + (Y (center K edge)) ^ 2
           \<and> (handle_base_diameter spec / 2) ^ 2 + 1
               > (X (center K edge)) ^ 2 + (Y (center K edge)) ^ 2))
       (edges K p)"

text \<open>
  A call of the builder: what it returns or raises, and the specification object as the
  call leaves it. The builder reads attributes of \<^verbatim>\<open>spec\<close> and passes their values to the
  kernel; it contains no assignment to an attribute.
\<close>

record 'e outcome =
  result :: "error + 'e shape"
  spec_after :: TapHandleSpec

definition make_tap_handle :: "'e kernel \<Rightarrow> TapHandleSpec \<Rightarrow> 'e outcome" where
  "make_tap_handle K spec =
     (let p = combined K spec;
          intersection_edges = intersection_edges K spec p
      in if \<not> (length intersection_edges > 0)
         then \<lparr> result = Inl (AssertionError []), spec_after = spec \<rparr>
         else
           let p = Fillet p intersection_edges 3.5;
               p = Sub p (Pos (shaft_length spec)
                     (Box (tap_square_side_length spec) (tap_square_side_length spec)
                        (tap_square_length spec) ANCHOR_TOP));
               p = Sub p (Pos (shaft_length spec)
                     (Cylinder (tap_diameter spec / 2) (tap_round_length spec) ANCHOR_TOP));
               p = Sub p (Pos (- handle_t_height spec - 0.1)
                     (Cylinder (4.9 / 2) 50 ANCHOR_BOTTOM))
           in \<lparr> result = Inr p, spec_after = spec \<rparr>)"

text \<open>
  Reading a built solid back: the solid the cuts were made in, and the cut-away solids in
  the order of the subtractions.
\<close>

fun uncut :: "'e shape \<Rightarrow> 'e shape" where
  "uncut (Sub a b) = uncut a"
| "uncut s = s"

fun cutters :: "'e shape \<Rightarrow> 'e shape list" where
  "cutters (Sub a b) = cutters a @ [b]"
| "cutters s = []"

text \<open>
  Modelled from the spec: where the kernel places a solid along Z, which the source leaves
  to the kernel. A top-anchored cylinder or box has its top face at Z = 0 and a
  bottom-anchored one its bottom face; the polygon is sketched in the plane Z = 0 and
  extruded upward by the amount; \<^verbatim>\<open>Pos(Z=z)\<close> shifts a solid by \<open>z\<close>; a fillet rounds edges
  and moves neither the bottom nor the top face; a union reaches from the lowest bottom to
  the highest top. Sizes are read as lengths. \<open>Span b t\<close> gives the bottom and the top;
  the extent of a cut solid is left open.
\<close>

datatype extent = Empty | Span real real | Unknown

fun shift :: "real \<Rightarrow> extent \<Rightarrow> extent" where
  "shift z (Span b t) = Span (b + z) (t + z)"
| "shift z e = e"

fun join :: "extent \<Rightarrow> extent \<Rightarrow> extent" where
  "join Unknown e = Unknown"
| "join e Unknown = Unknown"
| "join Empty e = e"
| "join e Empty = e"
| "join (Span b t) (Span b' t') = Span (min b b') (max t t')"

fun anchored :: "align \<Rightarrow> real \<Rightarrow> extent" where
  "anchored ANCHOR_TOP height = Span (- height) 0"
| "anchored ANCHOR_BOTTOM height = Span 0 height"

fun z_extent :: "'e shape \<Rightarrow> extent" where
  "z_extent PartNone = Empty"
| "z_extent (Cylinder radius height a) = anchored a height"
| "z_extent (Box len width height a) = anchored a height"
| "z_extent (RegularPolygon radius side_count) = Span 0 0"
| "z_extent (Extrude sketch amount) = Span 0 amount"
| "z_extent (Pos z s) = shift z (z_extent s)"
| "z_extent (Add a b) = join (z_extent a) (z_extent b)"
| "z_extent (Sub a b) = Unknown"
| "z_extent (Fillet s es radius) = z_extent s"

section \<open>The export loop of the main program\<close>

text \<open>
  The main program puts the built value in the dictionary \<^verbatim>\<open>parts\<close> under a name and then
  runs over \<^verbatim>\<open>parts.items()\<close>, in insertion order: it asserts that the value is an
  instance of \<^verbatim>\<open>bd.Part | bd.Solid | bd.Compound\<close> and exports it to an STL and a STEP
  file. A Python value is modelled by the classes of its type (the type itself and its
  base classes, which is what \<^verbatim>\<open>isinstance\<close> looks through), the qualified name of its
  type and the value itself.
\<close>

datatype pyclass = Part | Solid | Compound | OtherClass string

record 'a pyobject =
  classes :: "pyclass list"
  type_name :: string
  payload :: 'a

definition isinstance :: "'a pyobject \<Rightarrow> pyclass list \<Rightarrow> bool" where
  "isinstance part cs = (\<exists>c \<in> set cs. c \<in> set (classes part))"

text \<open>\<^verbatim>\<open>f"{type(part)}"\<close>: the name between \<^verbatim>\<open><class '\<close> and \<^verbatim>\<open>'>\<close>.\<close>

definition type_repr :: "'a pyobject \<Rightarrow> string" where
  "type_repr part = ''<class '' @ [CHR 0x27] @ type_name part @ [CHR 0x27] @ ''>''"

text \<open>The files written so far, each with the value that was exported to it.\<close>

type_synonym 'a files = "(string \<times> 'a pyobject) list"

text \<open>The two exports of one item: \<^verbatim>\<open>bd.export_stl\<close>, then \<^verbatim>\<open>bd.export_step\<close>.\<close>

definition exports :: "string \<Rightarrow> string \<times> 'a pyobject \<Rightarrow> 'a files" where
  "exports export_folder item =
     [(export_folder @ ''/'' @ fst item @ ''.stl'', snd item),
      (export_folder @ ''/'' @ fst item @ ''.step'', snd item)]"

fun export_loop ::
  "string \<Rightarrow> (string \<times> 'a pyobject) list \<Rightarrow> 'a files \<Rightarrow> (error + unit) \<times> 'a files" where
  "export_loop export_folder [] written = (Inr (), written)"
| "export_loop export_folder ((name, part) # rest) written =
     (if \<not> isinstance part [Part, Solid, Compound]
      then (Inl (AssertionError
              (name @ '' is not an expected type ('' @ type_repr part @ '')'')), written)
      else export_loop export_folder rest (written @ exports export_folder (name, part)))"

section \<open>Example inputs\<close>

text \<open>
  Two kernels whose edges are given by their centres. The first lists one edge on the
  ring where the shaft of the default handle meets the handle base, one on the rim of the
  base and one at the top of the shaft; the second lists no edge at all.
\<close>

definition ring_kernel :: "Vector kernel" where
  "ring_kernel =
     \<lparr> edges = (\<lambda>p. [\<lparr>X = - 6.25, Y = 0, Z = 0.1\<rparr>,
                       \<lparr>X = - 15, Y = 0, Z = - 4.4\<rparr>,
                       \<lparr>X = 6.25, Y = 0, Z = 139.99\<rparr>]),
       center = (\<lambda>edge. edge) \<rparr>"

definition edgeless_kernel :: "Vector kernel" where
  "edgeless_kernel = \<lparr> edges = (\<lambda>p. []), center = (\<lambda>edge. edge) \<rparr>"

text \<open>
  A third kernel, which differs from the first: it lists no edge for a solid that is the
  result of a cut, and it gives another centre for edges with Z = 1, none of which it lists.
\<close>

definition relisting_kernel :: "Vector kernel" where
  "relisting_kernel =
     \<lparr> edges = (\<lambda>p. case p of
                   Sub a b \<Rightarrow> []
                 | _ \<Rightarrow> [\<lparr>X = - 6.25, Y = 0, Z = 0.1\<rparr>,
                         \<lparr>X = - 15, Y = 0, Z = - 4.4\<rparr>,
                         \<lparr>X = 6.25, Y = 0, Z = 139.99\<rparr>]),
       center = (\<lambda>edge. if Z edge = 1 then \<lparr>X = 0, Y = 0, Z = 0\<rparr> else edge) \<rparr>"

text \<open>A value of the kernel's class \<^verbatim>\<open>Part\<close>, and \<^verbatim>\<open>None\<close>.\<close>

definition part_object :: "nat pyobject" where
  "part_object =
     \<lparr> classes = [Part, Compound, OtherClass ''object''],
       type_name = ''build123d.topology.Part'', payload = 1 \<rparr>"

definition none_object :: "nat pyobject" where
  "none_object =
     \<lparr> classes = [OtherClass ''NoneType'', OtherClass ''object''],
       type_name = ''NoneType'', payload = 0 \<rparr>"

section \<open>Properties of the dimensions\<close>

lemma two_powr_half: "(2::real) powr 0.5 = sqrt 2"
proof -
  have "(2::real) powr (1 / 2) = sqrt 2"
    by (rule powr_half_sqrt) simp
  then show ?thesis by simp
qed

text \<open>
  C1: the side of the square interface is the tap diameter divided by the square root of
  two, for every specification.
\<close>

theorem tap_square_side_length_sqrt:
  "tap_square_side_length s = tap_diameter s / sqrt 2"
  by (simp only: tap_square_side_length_def two_powr_half)

text \<open>
  C10: the side length is not stored at construction. After \<^verbatim>\<open>s.tap_diameter = d\<close> the
  property is \<open>d / sqrt 2\<close>, whatever the diameter was before.
\<close>

theorem tap_square_side_length_after_assignment:
  "tap_square_side_length (set_tap_diameter d s) = d / sqrt 2"
proof -
  have "tap_diameter (set_tap_diameter d s) = d"
    by (simp add: set_tap_diameter_def)
  then show ?thesis
    by (simp only: tap_square_side_length_def two_powr_half)
qed

section \<open>The junction fillet\<close>

text \<open>
  C2: an edge of the combined solid is selected for the junction fillet exactly when the
  absolute value of the Z coordinate of its centre is below 0.2 and the squared distance
  of its centre from the shaft axis lies strictly between \<open>(shaft_od / 2)\<^sup>2 - 1\<close> and
  \<open>(handle_base_diameter / 2)\<^sup>2 + 1\<close>.
\<close>

theorem intersection_edges_iff:
  "edge \<in> set (intersection_edges K spec (combined K spec)) \<longleftrightarrow>
     edge \<in> set (edges K (combined K spec))
     \<and> \<bar>Z (center K edge)\<bar> < 0.2
     \<and> (shaft_od spec / 2) ^ 2 - 1 < (X (center K edge)) ^ 2 + (Y (center K edge)) ^ 2
     \<and> (X (center K edge)) ^ 2 + (Y (center K edge)) ^ 2
          < (handle_base_diameter spec / 2) ^ 2 + 1"
  by (auto simp: intersection_edges_def)

text \<open>The two ways through the builder, with the local solids written out.\<close>

lemma result_cases:
  "make_tap_handle K spec =
     (if intersection_edges K spec (combined K spec) = []
      then \<lparr> result = Inl (AssertionError []), spec_after = spec \<rparr>
      else \<lparr> result = Inr
        (Sub (Sub (Sub (Fillet (combined K spec)
                          (intersection_edges K spec (combined K spec)) 3.5)
           (Pos (shaft_length spec)
              (Box (tap_square_side_length spec) (tap_square_side_length spec)
                 (tap_square_length spec) ANCHOR_TOP)))
           (Pos (shaft_length spec)
              (Cylinder (tap_diameter spec / 2) (tap_round_length spec) ANCHOR_TOP)))
           (Pos (- handle_t_height spec - 0.1) (Cylinder (4.9 / 2) 50 ANCHOR_BOTTOM))),
        spec_after = spec \<rparr>)"
  by (simp add: make_tap_handle_def Let_def)

lemma ring_selected:
  "intersection_edges ring_kernel default_spec p = [\<lparr>X = - 6.25, Y = 0, Z = 0.1\<rparr>]"
  by (simp add: intersection_edges_def ring_kernel_def default_spec_def power2_eq_square)

lemma edgeless_selected: "intersection_edges edgeless_kernel spec p = []"
  by (simp add: intersection_edges_def edgeless_kernel_def)

lemma ring_returns:
  "result (make_tap_handle ring_kernel default_spec)
     = Inr (projr (result (make_tap_handle ring_kernel default_spec)))"
  by (simp add: result_cases ring_selected)

text \<open>
  C3: the builder raises its assertion error exactly when no edge is selected, it raises
  nothing else, and when an edge is selected the solid that is cut afterwards is the
  combined solid with a fillet of radius 3.5 on the selected edges.
\<close>

theorem junction_assertion:
  "(result (make_tap_handle K spec) = Inl (AssertionError [])
      \<longleftrightarrow> intersection_edges K spec (combined K spec) = [])
   \<and> (\<forall>e. result (make_tap_handle K spec) = Inl e \<longrightarrow> e = AssertionError [])
   \<and> (intersection_edges K spec (combined K spec) \<noteq> []
      \<longrightarrow> (\<exists>q. result (make_tap_handle K spec) = Inr q
             \<and> uncut q = Fillet (combined K spec)
                            (intersection_edges K spec (combined K spec)) 3.5))"
  by (simp add: result_cases)

theorem junction_assertion_witness:
  "result (make_tap_handle edgeless_kernel default_spec) = Inl (AssertionError [])
   \<and> uncut (projr (result (make_tap_handle ring_kernel default_spec)))
       = Fillet (combined ring_kernel default_spec) [\<lparr>X = - 6.25, Y = 0, Z = 0.1\<rparr>] 3.5"
proof -
  have "result (make_tap_handle edgeless_kernel default_spec) = Inl (AssertionError [])"
    using junction_assertion [of edgeless_kernel default_spec]
    by (simp only: edgeless_selected)
  moreover have "\<exists>q. result (make_tap_handle ring_kernel default_spec) = Inr q
      \<and> uncut q = Fillet (combined ring_kernel default_spec)
                     [\<lparr>X = - 6.25, Y = 0, Z = 0.1\<rparr>] 3.5"
    using junction_assertion [of ring_kernel default_spec]
    by (simp only: ring_selected) simp
  then have "uncut (projr (result (make_tap_handle ring_kernel default_spec)))
       = Fillet (combined ring_kernel default_spec) [\<lparr>X = - 6.25, Y = 0, Z = 0.1\<rparr>] 3.5"
    by (elim exE conjE) (simp only: sum.sel)
  ultimately show ?thesis by (rule conjI)
qed

section \<open>The cuts\<close>

lemma z_extent_handle_part:
  "z_extent (handle_part K spec) = Span (0.1 - handle_t_height spec) 0.1"
  by (simp add: handle_part_def handle_body_def)

lemma default_fields:
  "shaft_od default_spec = 12.5" "shaft_length default_spec = 140"
  "shaft_hex_length default_spec = 10" "tap_diameter default_spec = 3"
  "tap_square_length default_spec = 10" "tap_round_length default_spec = 2"
  "handle_base_diameter default_spec = 30" "handle_t_width default_spec = 15"
  "handle_t_length default_spec = 120" "handle_t_length_2 default_spec = 60"
  "handle_t_height default_spec = 10"
  by (simp_all add: default_spec_def)

lemma z_extent_shaft_part:
  "z_extent (shaft_part spec) =
     Span (min 0 (shaft_length spec - shaft_hex_length spec - 0.01))
          (max (shaft_length spec - shaft_hex_length spec) (shaft_length spec - 0.01))"
  by (simp add: shaft_part_def)

text \<open>
  C5, as the code has it: after the junction fillet the first cut is the square prism of
  side \<open>tap_square_side_length\<close> and height \<open>tap_square_length\<close> and the second the
  cylinder of radius \<open>tap_diameter / 2\<close> and height \<open>tap_round_length\<close>; both are anchored
  at their top, which is placed at Z = \<open>shaft_length\<close>. The shaft reaches up to the larger
  of \<open>shaft_length - shaft_hex_length\<close> and \<open>shaft_length - 0.01\<close>; when the hexagonal part
  is at least 0.01 long its top, and the top of the shaft, is at \<open>shaft_length - 0.01\<close>, so
  the top face of both cuts is 0.01 above the top of the shaft.
\<close>

theorem drive_socket_cuts:
  "result (make_tap_handle (K :: 'e kernel) spec) = Inr q \<Longrightarrow>
     uncut q = Fillet (combined K spec) (intersection_edges K spec (combined K spec)) 3.5
     \<and> take 2 (cutters q) =
         [Pos (shaft_length spec)
            (Box (tap_square_side_length spec) (tap_square_side_length spec)
               (tap_square_length spec) ANCHOR_TOP),
          Pos (shaft_length spec)
            (Cylinder (tap_diameter spec / 2) (tap_round_length spec) ANCHOR_TOP)]
     \<and> z_extent (cutters q ! 0)
         = Span (shaft_length spec - tap_square_length spec) (shaft_length spec)
     \<and> z_extent (cutters q ! 1)
         = Span (shaft_length spec - tap_round_length spec) (shaft_length spec)
     \<and> z_extent (shaft_part spec :: 'e shape)
         = Span (min 0 (shaft_length spec - shaft_hex_length spec - 0.01))
                (max (shaft_length spec - shaft_hex_length spec) (shaft_length spec - 0.01))
     \<and> (0.01 \<le> shaft_hex_length spec \<longrightarrow>
          (\<exists>b. z_extent (shaft_part spec :: 'e shape) = Span b (shaft_length spec - 0.01)))"
proof -
  assume r: "result (make_tap_handle K spec) = Inr q"
  then have q: "q = Sub (Sub (Sub (Fillet (combined K spec)
                          (intersection_edges K spec (combined K spec)) 3.5)
           (Pos (shaft_length spec)
              (Box (tap_square_side_length spec) (tap_square_side_length spec)
                 (tap_square_length spec) ANCHOR_TOP)))
           (Pos (shaft_length spec)
              (Cylinder (tap_diameter spec / 2) (tap_round_length spec) ANCHOR_TOP)))
           (Pos (- handle_t_height spec - 0.1) (Cylinder (4.9 / 2) 50 ANCHOR_BOTTOM))"
    by (auto simp: result_cases split: if_splits)
  have top: "0.01 \<le> shaft_hex_length spec \<longrightarrow>
      (\<exists>b. z_extent (shaft_part spec :: 'e shape) = Span b (shaft_length spec - 0.01))"
    by (simp add: z_extent_shaft_part max_def)
  show ?thesis
    using top by (simp add: q z_extent_shaft_part)
qed

theorem drive_socket_cuts_witness:
  "take 2 (cutters (projr (result (make_tap_handle ring_kernel default_spec)))) =
     [Pos 140 (Box (tap_square_side_length default_spec)
                 (tap_square_side_length default_spec) 10 ANCHOR_TOP),
      Pos 140 (Cylinder 1.5 2 ANCHOR_TOP)]
   \<and> z_extent (cutters (projr (result (make_tap_handle ring_kernel default_spec))) ! 0)
       = Span 130 140
   \<and> z_extent (cutters (projr (result (make_tap_handle ring_kernel default_spec))) ! 1)
       = Span 138 140
   \<and> (0.01 :: real) \<le> shaft_hex_length default_spec
   \<and> z_extent (shaft_part default_spec :: Vector shape) = Span 0 139.99"
proof -
  have h: "(0.01 :: real) \<le> shaft_hex_length default_spec"
    by (simp add: default_fields)
  have "z_extent (shaft_part default_spec :: Vector shape) = Span 0 139.99"
    using h drive_socket_cuts [OF ring_returns] by (simp add: default_fields)
  then show ?thesis
    using h drive_socket_cuts [OF ring_returns] by (simp add: default_fields)
qed

text \<open>
  For the default dimensions the shaft ends at Z = 139.99 and both cuts have their top at
  Z = 140, which is not the top of the shaft.
\<close>

theorem drive_socket_counterexample:
  "z_extent (shaft_part default_spec :: Vector shape) = Span 0 139.99
   \<and> z_extent (cutters (projr (result (make_tap_handle ring_kernel default_spec))) ! 0)
       = Span 130 140
   \<and> z_extent (cutters (projr (result (make_tap_handle ring_kernel default_spec))) ! 1)
       = Span 138 140
   \<and> (140 :: real) \<noteq> 139.99"
proof -
  have "z_extent (shaft_part default_spec :: Vector shape) = Span 0 139.99"
    by (simp add: z_extent_shaft_part default_spec_def)
  moreover have "cutters (projr (result (make_tap_handle ring_kernel default_spec))) =
      [Pos (shaft_length default_spec)
         (Box (tap_square_side_length default_spec) (tap_square_side_length default_spec)
            (tap_square_length default_spec) ANCHOR_TOP),
       Pos (shaft_length default_spec)
         (Cylinder (tap_diameter default_spec / 2) (tap_round_length default_spec) ANCHOR_TOP),
       Pos (- handle_t_height default_spec - 0.1) (Cylinder (4.9 / 2) 50 ANCHOR_BOTTOM)]"
    by (simp add: result_cases ring_selected)
  then have "z_extent (cutters (projr (result (make_tap_handle ring_kernel default_spec))) ! 0)
       = Span 130 140
     \<and> z_extent (cutters (projr (result (make_tap_handle ring_kernel default_spec))) ! 1)
       = Span 138 140"
    by (simp add: default_spec_def)
  ultimately show ?thesis by simp
qed

text \<open>
  C4, as the code has it: the last cut is a bottom-anchored cylinder of radius 4.9 / 2 and
  height 50 whose bottom is at Z = \<open>- handle_t_height - 0.1\<close>. The handle, shifted up by 0.1
  after its fillet, has its bottom at Z = \<open>0.1 - handle_t_height\<close>, so the cylinder starts
  0.2 below the bottom of the handle.
\<close>

theorem bolt_hole_cut:
  "result (make_tap_handle K spec) = Inr q \<Longrightarrow>
     last (cutters q) = Pos (- handle_t_height spec - 0.1) (Cylinder (4.9 / 2) 50 ANCHOR_BOTTOM)
     \<and> z_extent (handle_part K spec) = Span (0.1 - handle_t_height spec) 0.1
     \<and> z_extent (last (cutters q))
         = Span (0.1 - handle_t_height spec - 0.2) (0.1 - handle_t_height spec - 0.2 + 50)"
  by (auto simp: result_cases z_extent_handle_part split: if_splits)

theorem bolt_hole_cut_witness:
  "last (cutters (projr (result (make_tap_handle ring_kernel default_spec))))
     = Pos (- 10.1) (Cylinder 2.45 50 ANCHOR_BOTTOM)
   \<and> z_extent (handle_part ring_kernel default_spec) = Span (- 9.9) 0.1
   \<and> z_extent (last (cutters (projr (result (make_tap_handle ring_kernel default_spec)))))
       = Span (- 10.1) 39.9"
  using bolt_hole_cut [OF ring_returns] by (simp add: default_spec_def)

text \<open>
  For the default dimensions the handle's bottom is at Z = -9.9 and the bottom of the
  cylinder at Z = -10.1, which is not 0.1 below it.
\<close>

theorem bolt_hole_counterexample:
  "z_extent (handle_part ring_kernel default_spec) = Span (- 9.9) 0.1
   \<and> z_extent (last (cutters (projr (result (make_tap_handle ring_kernel default_spec)))))
       = Span (- 10.1) 39.9
   \<and> (- 10.1 :: real) \<noteq> - 9.9 - 0.1"
proof -
  have "z_extent (handle_part ring_kernel default_spec) = Span (- 9.9) 0.1"
    by (simp add: z_extent_handle_part default_spec_def)
  moreover have "last (cutters (projr (result (make_tap_handle ring_kernel default_spec))))
      = Pos (- handle_t_height default_spec - 0.1) (Cylinder (4.9 / 2) 50 ANCHOR_BOTTOM)"
    by (simp add: result_cases ring_selected)
  then have "z_extent (last (cutters (projr (result (make_tap_handle ring_kernel default_spec)))))
      = Span (- 10.1) 39.9"
    by (simp add: default_spec_def)
  ultimately show ?thesis by simp
qed

section \<open>The shaft\<close>

text \<open>
  C6: the shaft is the union of a bottom-anchored cylinder of radius \<open>shaft_od / 2\<close> that
  runs from Z = 0 up to \<open>shaft_length - shaft_hex_length\<close>, and a six-sided regular polygon of
  radius \<open>shaft_od / 2\<close> extruded by \<open>shaft_hex_length\<close> whose bottom is 0.01 below the top of
  the cylinder; this shaft is the one in the solid the builder fillets and cuts.
\<close>

theorem shaft_construction:
  "shaft_part spec =
     Add (Add PartNone
       (Cylinder (shaft_od spec / 2) (shaft_length spec - shaft_hex_length spec) ANCHOR_BOTTOM))
       (Pos (shaft_length spec - shaft_hex_length spec - 0.01)
          (Extrude (RegularPolygon (shaft_od spec / 2) 6) (shaft_hex_length spec)))
   \<and> z_extent (Cylinder (shaft_od spec / 2) (shaft_length spec - shaft_hex_length spec)
         ANCHOR_BOTTOM :: 'e shape)
       = Span 0 (shaft_length spec - shaft_hex_length spec)
   \<and> z_extent (Pos (shaft_length spec - shaft_hex_length spec - 0.01)
          (Extrude (RegularPolygon (shaft_od spec / 2) 6) (shaft_hex_length spec)) :: 'e shape)
       = Span ((shaft_length spec - shaft_hex_length spec) - 0.01)
              ((shaft_length spec - shaft_hex_length spec) - 0.01 + shaft_hex_length spec)
   \<and> (\<forall>K q. result (make_tap_handle K spec) = Inr q \<longrightarrow>
         (\<exists>es. uncut q = Fillet (Add (Add PartNone (handle_part K spec)) (shaft_part spec))
                   es 3.5))"
  by (auto simp: shaft_part_def result_cases combined_def split: if_splits)

theorem shaft_construction_witness:
  "(shaft_part default_spec :: Vector shape) =
     Add (Add PartNone (Cylinder 6.25 130 ANCHOR_BOTTOM))
       (Pos 129.99 (Extrude (RegularPolygon 6.25 6) 10))
   \<and> z_extent (Pos 129.99 (Extrude (RegularPolygon 6.25 6) 10) :: Vector shape)
       = Span 129.99 139.99
   \<and> (\<exists>es. uncut (projr (result (make_tap_handle ring_kernel default_spec)))
         = Fillet (Add (Add PartNone (handle_part ring_kernel default_spec))
                     (shaft_part default_spec)) es 3.5)"
proof -
  have "\<exists>es. uncut (projr (result (make_tap_handle ring_kernel default_spec)))
         = Fillet (Add (Add PartNone (handle_part ring_kernel default_spec))
                     (shaft_part default_spec)) es 3.5"
    using shaft_construction [of default_spec, where ?'e = Vector] ring_returns by blast
  moreover have "(shaft_part default_spec :: Vector shape) =
     Add (Add PartNone (Cylinder 6.25 130 ANCHOR_BOTTOM))
       (Pos 129.99 (Extrude (RegularPolygon 6.25 6) 10))"
    by (simp add: shaft_part_def default_spec_def)
  ultimately show ?thesis by simp
qed

section \<open>Calls of the builder\<close>

lemma same_fields:
  "shaft_od default_spec = shaft_od (set_tap_diameter 3.0 default_spec)"
  "shaft_length default_spec = shaft_length (set_tap_diameter 3.0 default_spec)"
  "shaft_hex_length default_spec = shaft_hex_length (set_tap_diameter 3.0 default_spec)"
  "tap_diameter default_spec = tap_diameter (set_tap_diameter 3.0 default_spec)"
  "tap_square_length default_spec = tap_square_length (set_tap_diameter 3.0 default_spec)"
  "tap_round_length default_spec = tap_round_length (set_tap_diameter 3.0 default_spec)"
  "handle_base_diameter default_spec
     = handle_base_diameter (set_tap_diameter 3.0 default_spec)"
  "handle_t_width default_spec = handle_t_width (set_tap_diameter 3.0 default_spec)"
  "handle_t_length default_spec = handle_t_length (set_tap_diameter 3.0 default_spec)"
  "handle_t_length_2 default_spec = handle_t_length_2 (set_tap_diameter 3.0 default_spec)"
  "handle_t_height default_spec = handle_t_height (set_tap_diameter 3.0 default_spec)"
  by (simp_all add: default_spec_def set_tap_diameter_def)

lemma intersection_edges_agree:
  assumes "edges K1 p = edges K2 p"
    and "\<forall>edge \<in> set (edges K1 p). center K1 edge = center K2 edge"
  shows "intersection_edges K1 spec p = intersection_edges K2 spec p"
  unfolding intersection_edges_def using assms
  by (auto intro: filter_cong)

text \<open>
  C8: two calls with specifications that agree on every field give the same result, the
  same solid or the same error, and so solids of the same volume. The kernel may be asked
  in two different states, \<open>K1\<close> for the first call and \<open>K2\<close> for the second: what is needed
  of it is that it lists the same edges for the handle and for the combined solid in both
  calls and gives the edges of the combined solid the same centres. One kernel for both
  calls does so.
\<close>

theorem make_tap_handle_deterministic:
  assumes "shaft_od s1 = shaft_od s2" "shaft_length s1 = shaft_length s2"
    "shaft_hex_length s1 = shaft_hex_length s2" "tap_diameter s1 = tap_diameter s2"
    "tap_square_length s1 = tap_square_length s2" "tap_round_length s1 = tap_round_length s2"
    "handle_base_diameter s1 = handle_base_diameter s2" "handle_t_width s1 = handle_t_width s2"
    "handle_t_length s1 = handle_t_length s2" "handle_t_length_2 s1 = handle_t_length_2 s2"
    "handle_t_height s1 = handle_t_height s2"
    and handle_edges: "edges K1 (handle_body s1) = edges K2 (handle_body s2)"
    and solid_edges: "edges K1 (combined K1 s1) = edges K2 (combined K2 s2)"
    and centers: "\<forall>edge \<in> set (edges K1 (combined K1 s1)). center K1 edge = center K2 edge"
  shows "result (make_tap_handle K1 s1) = result (make_tap_handle K2 s2)
    \<and> map_sum id volume (result (make_tap_handle K1 s1))
        = map_sum id volume (result (make_tap_handle K2 s2))"
proof -
  have s: "s1 = s2" using assms(1-11) by simp
  have p: "combined K1 s1 = combined K2 s2"
    using s handle_edges by (simp add: combined_def handle_part_def)
  have "intersection_edges K1 s1 (combined K1 s1) = intersection_edges K2 s1 (combined K1 s1)"
    using solid_edges centers p by (intro intersection_edges_agree) simp_all
  then have "intersection_edges K1 s1 (combined K1 s1)
      = intersection_edges K2 s2 (combined K2 s2)"
    using s p by simp
  then have "result (make_tap_handle K1 s1) = result (make_tap_handle K2 s2)"
    using s p by (simp add: result_cases)
  then show ?thesis by simp
qed

theorem make_tap_handle_deterministic_witness:
  "edges ring_kernel (Sub PartNone PartNone) \<noteq> edges relisting_kernel (Sub PartNone PartNone)
   \<and> result (make_tap_handle ring_kernel default_spec)
       = result (make_tap_handle relisting_kernel (set_tap_diameter 3.0 default_spec))"
proof -
  have d: "edges ring_kernel (Sub PartNone PartNone)
      \<noteq> edges relisting_kernel (Sub PartNone PartNone)"
    by (simp add: ring_kernel_def relisting_kernel_def)
  have e1: "edges ring_kernel (handle_body default_spec)
      = edges relisting_kernel (handle_body (set_tap_diameter 3.0 default_spec))"
    by (simp add: ring_kernel_def relisting_kernel_def handle_body_def)
  have e2: "edges ring_kernel (combined ring_kernel default_spec)
      = edges relisting_kernel
          (combined relisting_kernel (set_tap_diameter 3.0 default_spec))"
    by (simp add: ring_kernel_def relisting_kernel_def combined_def)
  have c: "\<forall>edge \<in> set (edges ring_kernel (combined ring_kernel default_spec)).
      center ring_kernel edge = center relisting_kernel edge"
    by (simp add: ring_kernel_def relisting_kernel_def)
  have "result (make_tap_handle ring_kernel default_spec)
       = result (make_tap_handle relisting_kernel (set_tap_diameter 3.0 default_spec))"
    using make_tap_handle_deterministic [OF same_fields e1 e2 c] by (rule conjunct1)
  with d show ?thesis by (rule conjI)
qed

text \<open>
  C9: the builder does not change the specification it is given: after the call every
  field has the value it had before.
\<close>

theorem make_tap_handle_leaves_spec:
  "spec_after (make_tap_handle K spec) = spec"
  by (simp add: result_cases)

section \<open>The type check before each export\<close>

lemma export_loop_all_ok:
  "\<forall>item \<in> set pre. isinstance (snd item) [Part, Solid, Compound] \<Longrightarrow>
   export_loop folder (pre @ rest) written
     = export_loop folder rest (written @ concat (map (exports folder) pre))"
  by (induction pre arbitrary: written) auto

text \<open>
  C7: when the loop reaches a value that is not an instance of \<open>Part\<close>, \<open>Solid\<close> or
  \<open>Compound\<close>, it stops with an assertion error whose message gives the key and the type
  of the value; the files written are those of the items before it, and none of them holds
  that value.
\<close>

theorem export_type_check:
  assumes "\<forall>item \<in> set pre. isinstance (snd item) [Part, Solid, Compound]"
    and "\<not> isinstance part [Part, Solid, Compound]"
  shows "export_loop folder (pre @ (name, part) # post) written =
           (Inl (AssertionError (name @ '' is not an expected type ('' @ type_repr part @ '')'')),
            written @ concat (map (exports folder) pre))
         \<and> part \<notin> snd ` set (concat (map (exports folder) pre))"
proof -
  have "part \<notin> snd ` set (concat (map (exports folder) pre))"
    using assms by (auto simp: exports_def)
  then show ?thesis
    using assms by (simp add: export_loop_all_ok)
qed

theorem export_type_check_witness:
  "export_loop ''build'' [(''tap_handle_m3'', part_object), (''spare'', none_object)] []
     = (Inl (AssertionError
          (''spare is not an expected type (<class '' @ [CHR 0x27] @ ''NoneType''
             @ [CHR 0x27] @ ''>)'')),
        [(''build/tap_handle_m3.stl'', part_object),
         (''build/tap_handle_m3.step'', part_object)])
   \<and> none_object \<noteq> part_object"
proof -
  have a: "\<forall>item \<in> set [(''tap_handle_m3'', part_object)].
      isinstance (snd item) [Part, Solid, Compound]"
    by (simp add: isinstance_def part_object_def)
  have b: "\<not> isinstance none_object [Part, Solid, Compound]"
    by (simp add: isinstance_def none_object_def)
  have c: "type_repr none_object = ''<class '' @ [CHR 0x27] @ ''NoneType'' @ [CHR 0x27] @ ''>''"
    by (simp add: type_repr_def none_object_def)
  have d: "none_object \<noteq> part_object"
    by (simp add: none_object_def part_object_def)
  show ?thesis
    using export_type_check [OF a b, of "''build''" "''spare''" "[]" "[]"] c d
    by (simp add: exports_def)
qed

end
